theory Spec2Isabelle
  imports Complex_Main
begin

section \<open>The migration-validate route: \<open>src/app/api/migrations/validate/route.ts\<close>\<close>

text \<open>
  A shallow embedding of the \<open>POST\<close> handler. The handler is a sequence of calls to
  collaborators (request parsing, organisation lookup, template registry, record
  pre-check, validation engine, session helper, usage tracker) whose code is not part of
  the route; each of them is a field of the environment \<open>env\<close>, returning either the
  thrown value (\<open>Inl\<close>) or the result (\<open>Inr\<close>). The handler returns the response
  together with the list of calls it made, in order.
\<close>

subsection \<open>JavaScript values and string operations\<close>

text \<open>
  The values \<open>JSON.parse\<close> produces. A number carries the value of the double; an
  absent property (\<open>undefined\<close>) is \<open>None\<close> of an option.
\<close>

datatype json =
    JNull
  | JBool bool
  | JNum rat
  | JStr string
  | JArr "json list"
  | JObj "(string \<times> json) list"

text \<open>JavaScript's truthiness (\<open>!x\<close> is its negation), on parsed JSON.\<close>

fun truthy :: "json \<Rightarrow> bool" where
  "truthy JNull = False"
| "truthy (JBool b) = b"
| "truthy (JNum x) = (x \<noteq> 0)"
| "truthy (JStr s) = (s \<noteq> [])"
| "truthy (JArr xs) = True"
| "truthy (JObj kvs) = True"

text \<open>\<open>x || undefined\<close> on an optional string: the empty string is falsy.\<close>

definition or_undefined :: "string option \<Rightarrow> string option" where
  "or_undefined x = (case x of None \<Rightarrow> None | Some s \<Rightarrow> if s = [] then None else Some s)"

fun starts_with :: "string \<Rightarrow> string \<Rightarrow> bool" where
  "starts_with s [] = True"
| "starts_with [] (p # ps) = False"
| "starts_with (c # cs) (p # ps) = (c = p \<and> starts_with cs ps)"

text \<open>\<open>s.includes(sub)\<close>: \<open>sub\<close> occurs somewhere in \<open>s\<close>.\<close>

fun js_includes :: "string \<Rightarrow> string \<Rightarrow> bool" where
  "js_includes [] sub = (sub = [])"
| "js_includes (c # cs) sub = (starts_with (c # cs) sub \<or> js_includes cs sub)"

text \<open>
  \<open>s.replace(pat, rep)\<close> with a string pattern: the first occurrence of \<open>pat\<close> is
  replaced, the rest of \<open>s\<close> is kept; \<open>s\<close> is returned as it is when \<open>pat\<close> does not
  occur.
\<close>

fun js_replace :: "string \<Rightarrow> string \<Rightarrow> string \<Rightarrow> string" where
  "js_replace [] pat rep = (if pat = [] then rep else [])"
| "js_replace (c # cs) pat rep =
     (if starts_with (c # cs) pat then rep @ drop (length pat) (c # cs)
      else c # js_replace cs pat rep)"

text \<open>A non-negative integer in a template literal: its decimal digits.\<close>

definition digit_char :: "nat \<Rightarrow> char" where
  "digit_char d = ''0123456789'' ! d"

fun show_nat :: "nat \<Rightarrow> string" where
  "show_nat n = (if n < 10 then [digit_char n] else show_nat (n div 10) @ [digit_char (n mod 10)])"

declare show_nat.simps [simp del]

text \<open>\<open>xs[i]\<close>: \<open>undefined\<close> out of range.\<close>

definition nth_opt :: "'a list \<Rightarrow> nat \<Rightarrow> 'a option" where
  "nth_opt xs i = (if i < length xs then Some (xs ! i) else None)"

subsection \<open>The data model\<close>

datatype severity = Error | Warning | Info

text \<open>\<open>interface ValidationIssue\<close> (lines 10-20); an optional property is an option.\<close>

record ValidationIssue =
  issue_id :: string
  severity :: severity
  title :: string
  description :: string
  recordId :: "string option"
  recordLink :: "string option"
  field :: "string option"
  suggestion :: "string option"
  parentRecordId :: "string option"

record Summary =
  errors :: nat
  warnings :: nat
  info :: nat

text \<open>\<open>interface ValidationResult\<close> (lines 22-33).\<close>

record ValidationResult =
  isValid :: bool
  hasErrors :: bool
  hasWarnings :: bool
  issues :: "ValidationIssue list"
  summary :: Summary
  selectedRecordNames :: "json option"

text \<open>
  The five properties that line 38 reads off the request body. A property that is absent
  is \<open>None\<close>. \<open>selectedRecords\<close> is an array when it is there, as the request contract
  (\<open>string[]\<close>) and the signature of \<open>validateSelectedRecords\<close> have it; \<open>null\<close> there
  reads as absent, since \<open>selectedRecords?.length\<close> is \<open>undefined\<close> for both.
\<close>

record RequestBody =
  sourceOrgId :: "json option"
  targetOrgId :: "json option"
  templateId :: "json option"
  selectedRecords :: "json list option"
  body_selectedRecordNames :: "json option"

text \<open>
  What \<open>request.json()\<close> resolves with: \<open>null\<close>, of which no property can be read, or an
  object with its properties. (A boolean, a number, a string or an array has none of the
  five properties and reads like the object in which all five are absent.)
\<close>

datatype parsed_body = Body_null | Body_object RequestBody

text \<open>An organisation row; the handler reads \<open>instance_url\<close> only.\<close>

record Organisation =
  org_id :: string
  instance_url :: string

text \<open>A template: the handler reads \<open>etlSteps[0]?.extractConfig?.objectApiName\<close>.\<close>

record ExtractConfig =
  objectApiName :: "string option"

record EtlStep =
  extractConfig :: "ExtractConfig option"

record Template =
  etlSteps :: "EtlStep list"

text \<open>What \<open>validateSelectedRecords\<close> resolves with (read at lines 77-83).\<close>

record RecordValidation =
  valid :: bool
  precheck_errors :: "string list"
  invalidRecords :: "string list"

text \<open>One entry of the engine's \<open>errors\<close>, \<open>warnings\<close> or \<open>info\<close> (read at lines 120-161).\<close>

record Finding =
  checkName :: string
  message :: string
  finding_recordId :: "string option"
  finding_recordLink :: "string option"
  suggestedAction :: "string option"
  finding_parentRecordId :: "string option"

record EngineResult =
  engine_errors :: "Finding list"
  engine_warnings :: "Finding list"
  engine_info :: "Finding list"

record AuthSession =
  user_id :: string

text \<open>
  A value of the object that the \<open>reduce\<close> of lines 208-211 builds: a count, or the text
  that comes of adding 1 to a value that is not a number.
\<close>

datatype tally_value = Count nat | Text string

text \<open>
  The argument of \<open>usageTracker.trackEvent\<close> (lines 193-214). \<open>errorTypes\<close> is an object:
  it is modelled by its own properties, a finite map; the order in which it enumerates
  them is not part of the model.
\<close>

record UsageEvent =
  eventType :: string
  userId :: string
  meta_templateId :: json
  meta_sourceOrgId :: json
  meta_targetOrgId :: json
  recordCount :: nat
  meta_isValid :: bool
  errorCount :: nat
  warningCount :: nat
  errorTypes :: "string \<Rightarrow> tally_value option"

text \<open>A thrown value: an \<open>Error\<close> with its message, or anything else.\<close>

datatype thrown = Error_obj string | Non_error

text \<open>The bodies \<open>NextResponse.json\<close> is given, one constructor per shape.\<close>

datatype response_body =
    Body_error string
  | Body_token_expired string string string
  | Body_failed string string
  | Body_validation bool ValidationResult

record Response =
  status :: nat
  body :: response_body

text \<open>
  The collaborators. \<open>second_rejects_first\<close> tells which rejection \<open>Promise.all\<close> reports
  when both organisation lookups reject: the one that settles first. Two fields belong to
  the JavaScript runtime: \<open>destructure_null_message\<close> is the message of the \<open>TypeError\<close>
  it throws when line 38 destructures \<open>null\<close>, and \<open>object_prototype\<close> gives, for each
  property that a plain object inherits from \<open>Object.prototype\<close> (\<open>constructor\<close>,
  \<open>toString\<close>, \<open>__proto__\<close>, ...), the string its value converts to; these values are
  functions and, under \<open>__proto__\<close>, the prototype itself, all of them truthy.
\<close>

record env =
  request_json :: "thrown + parsed_body"
  destructure_null_message :: string
  object_prototype :: "string \<Rightarrow> string option"
  findUnique :: "json \<Rightarrow> thrown + Organisation option"
  second_rejects_first :: bool
  getTemplate :: "json \<Rightarrow> thrown + Template option"
  validateSelectedRecords :: "json \<Rightarrow> json list \<Rightarrow> string \<Rightarrow> thrown + RecordValidation"
  validateTemplate :: "Template \<Rightarrow> json \<Rightarrow> json \<Rightarrow> json list \<Rightarrow> string \<Rightarrow> thrown + EngineResult"
  requireAuth :: "thrown + AuthSession"
  trackEvent :: "UsageEvent \<Rightarrow> thrown + unit"

text \<open>The calls the handler makes, as they appear in its trace.\<close>

datatype call =
    Call_request_json
  | Call_findUnique json
  | Call_getTemplate json
  | Call_validateSelectedRecords json "json list" string
  | Call_validateTemplate
  | Call_requireAuth
  | Call_trackEvent UsageEvent
  | Call_console_error string

subsection \<open>Building the report\<close>

text \<open>Line 40: the four required parameters, when none of them is falsy.\<close>

definition required_params :: "RequestBody \<Rightarrow> (json \<times> json \<times> json \<times> json list) option" where
  "required_params b =
     (case sourceOrgId b of None \<Rightarrow> None | Some src \<Rightarrow>
       (case targetOrgId b of None \<Rightarrow> None | Some tgt \<Rightarrow>
         (case templateId b of None \<Rightarrow> None | Some tid \<Rightarrow>
           (case selectedRecords b of None \<Rightarrow> None | Some recs \<Rightarrow>
              if \<not> truthy src \<or> \<not> truthy tgt \<or> \<not> truthy tid \<or> length recs = 0 then None
              else Some (src, tgt, tid, recs)))))"

text \<open>
  \<open>Promise.all\<close> of two promises (lines 48-51): both calls have been made; it resolves
  with both results, or rejects with the rejection that comes first.
\<close>

definition promise_all2 :: "bool \<Rightarrow> thrown + 'a \<Rightarrow> thrown + 'b \<Rightarrow> thrown + ('a \<times> 'b)" where
  "promise_all2 second_first p q =
     (case p of
        Inr a \<Rightarrow> (case q of Inr b \<Rightarrow> Inr (a, b) | Inl e \<Rightarrow> Inl e)
      | Inl e \<Rightarrow> (case q of Inr b \<Rightarrow> Inl e | Inl e' \<Rightarrow> Inl (if second_first then e' else e)))"

text \<open>Line 73: the object type of the template's first step, or the fallback.\<close>

definition objectType :: "Template \<Rightarrow> string" where
  "objectType template =
     (case etlSteps template of
        [] \<Rightarrow> ''tc9_et__Interpretation_Rule__c''
      | step # rest \<Rightarrow>
          (case extractConfig step of
             None \<Rightarrow> ''tc9_et__Interpretation_Rule__c''
           | Some c \<Rightarrow>
               (case objectApiName c of
                  None \<Rightarrow> ''tc9_et__Interpretation_Rule__c''
                | Some n \<Rightarrow> if n = [] then ''tc9_et__Interpretation_Rule__c'' else n)))"

text \<open>\<open>selectedRecordNames || {}\<close> (lines 97 and 187).\<close>

definition names_or_empty :: "json option \<Rightarrow> json" where
  "names_or_empty names =
     (case names of None \<Rightarrow> JObj [] | Some n \<Rightarrow> if truthy n then n else JObj [])"

text \<open>Lines 78-85: the issue for the pre-check's error at \<open>index\<close>.\<close>

definition record_validation_issue :: "string list \<Rightarrow> nat \<Rightarrow> string \<Rightarrow> ValidationIssue" where
  "record_validation_issue invalid index error =
     \<lparr>issue_id = ''record-validation-error-'' @ show_nat index,
      severity = Error,
      title = ''Invalid Record Selection'',
      description = error,
      recordId = nth_opt invalid index,
      recordLink = None,
      field = None,
      suggestion = Some ''Ensure the selected record exists and is of the correct type'',
      parentRecordId = None\<rparr>"

text \<open>Lines 78-98: the report of an invalid record selection.\<close>

definition invalid_selection_result :: "RecordValidation \<Rightarrow> json option \<Rightarrow> ValidationResult" where
  "invalid_selection_result rv names =
     (let iss = map (\<lambda>(index, error). record_validation_issue (invalidRecords rv) index error)
                  (enumerate 0 (precheck_errors rv))
      in \<lparr>isValid = False,
          hasErrors = True,
          hasWarnings = False,
          issues = iss,
          summary = \<lparr>errors = length iss, warnings = 0, info = 0\<rparr>,
          selectedRecordNames = Some (names_or_empty names)\<rparr>)"

text \<open>Lines 120-133: an engine error as an issue; \<open>field\<close> is read off the check name.\<close>

definition error_issue :: "nat \<Rightarrow> Finding \<Rightarrow> ValidationIssue" where
  "error_issue index error =
     \<lparr>issue_id = ''error-'' @ show_nat index,
      severity = Error,
      title = checkName error,
      description = message error,
      recordId = or_undefined (finding_recordId error),
      recordLink = or_undefined (finding_recordLink error),
      field = (if js_includes (checkName error) ''Invalid'' \<and> js_includes (checkName error) ''Values''
               then Some (js_replace (js_replace (checkName error) ''Invalid '' []) '' Values'' [])
               else None),
      suggestion = or_undefined (suggestedAction error),
      parentRecordId = or_undefined (finding_parentRecordId error)\<rparr>"

text \<open>Lines 136-147.\<close>

definition warning_issue :: "nat \<Rightarrow> Finding \<Rightarrow> ValidationIssue" where
  "warning_issue index warning =
     \<lparr>issue_id = ''warning-'' @ show_nat index,
      severity = Warning,
      title = checkName warning,
      description = message warning,
      recordId = or_undefined (finding_recordId warning),
      recordLink = or_undefined (finding_recordLink warning),
      field = None,
      suggestion = or_undefined (suggestedAction warning),
      parentRecordId = or_undefined (finding_parentRecordId warning)\<rparr>"

text \<open>Lines 150-161.\<close>

definition info_issue :: "nat \<Rightarrow> Finding \<Rightarrow> ValidationIssue" where
  "info_issue index item =
     \<lparr>issue_id = ''info-'' @ show_nat index,
      severity = Info,
      title = checkName item,
      description = message item,
      recordId = or_undefined (finding_recordId item),
      recordLink = or_undefined (finding_recordLink item),
      field = None,
      suggestion = or_undefined (suggestedAction item),
      parentRecordId = or_undefined (finding_parentRecordId item)\<rparr>"

text \<open>Lines 165-171, for \<open>n\<close> selected records.\<close>

definition large_batch_warning :: "nat \<Rightarrow> ValidationIssue" where
  "large_batch_warning n =
     \<lparr>issue_id = ''large-batch-warning'',
      severity = Warning,
      title = ''Large Number of Records Selected'',
      description = ''You have selected '' @ show_nat n
        @ '' records. Large migrations may take longer and have higher failure rates.'',
      recordId = None,
      recordLink = None,
      field = None,
      suggestion = Some ''Consider breaking this into smaller batches for better reliability.'',
      parentRecordId = None\<rparr>"

text \<open>Lines 117-172: the issue list after the three \<open>forEach\<close> loops and the batch check.\<close>

definition engine_issues :: "EngineResult \<Rightarrow> nat \<Rightarrow> ValidationIssue list" where
  "engine_issues er n =
     map (\<lambda>(index, e). error_issue index e) (enumerate 0 (engine_errors er))
     @ map (\<lambda>(index, w). warning_issue index w) (enumerate 0 (engine_warnings er))
     @ map (\<lambda>(index, i). info_issue index i) (enumerate 0 (engine_info er))
     @ (if n > 200 then [large_batch_warning n] else [])"

text \<open>Lines 175-179.\<close>

definition summarise :: "ValidationIssue list \<Rightarrow> Summary" where
  "summarise iss =
     \<lparr>errors = length (filter (\<lambda>i. severity i = Error) iss),
      warnings = length (filter (\<lambda>i. severity i = Warning) iss),
      info = length (filter (\<lambda>i. severity i = Info) iss)\<rparr>"

text \<open>Lines 117-188: the report of a completed engine run over \<open>n\<close> selected records.\<close>

definition engine_validation_result :: "EngineResult \<Rightarrow> nat \<Rightarrow> json option \<Rightarrow> ValidationResult" where
  "engine_validation_result er n names =
     (let iss = engine_issues er n; s = summarise iss
      in \<lparr>isValid = (errors s = 0),
          hasErrors = (errors s > 0),
          hasWarnings = (warnings s > 0),
          issues = iss,
          summary = s,
          selectedRecordNames = Some (names_or_empty names)\<rparr>)"

subsection \<open>Usage tracking\<close>

text \<open>
  Lines 208-211: one step of the \<open>reduce\<close> over the error titles,
  \<open>acc[title] = (acc[title] || 0) + 1\<close>, on an accumulator that starts as the plain object
  \<open>{}\<close>. Reading \<open>acc[title]\<close> finds the accumulator's own property or else the one it
  inherits. An own count is incremented and a title seen for the first time gets the count
  1, unless the accumulator inherits a property of that name: its value is truthy and not
  a number, so that adding 1 appends "1" to the string it converts to, and so does every
  later step on that text. The result is stored as an own property, except under
  \<open>__proto__\<close>, an accessor whose setter ignores a string.
\<close>

definition tally ::
  "(string \<Rightarrow> string option) \<Rightarrow> (string \<Rightarrow> tally_value option) \<Rightarrow> string
     \<Rightarrow> (string \<Rightarrow> tally_value option)" where
  "tally proto acc t =
     (case acc t of
        Some (Count n) \<Rightarrow> acc(t \<mapsto> Count (n + 1))
      | Some (Text s) \<Rightarrow> acc(t \<mapsto> Text (s @ ''1''))
      | None \<Rightarrow>
          (case proto t of
             None \<Rightarrow> acc(t \<mapsto> Count 1)
           | Some s \<Rightarrow> if t = ''__proto__'' then acc else acc(t \<mapsto> Text (s @ ''1''))))"

definition usage_event ::
  "(string \<Rightarrow> string option) \<Rightarrow> AuthSession \<Rightarrow> json \<Rightarrow> json \<Rightarrow> json \<Rightarrow> nat \<Rightarrow> ValidationResult
     \<Rightarrow> UsageEvent" where
  "usage_event proto authSession tid src tgt n vr =
     \<lparr>eventType = ''migration_validated'',
      userId = user_id authSession,
      meta_templateId = tid,
      meta_sourceOrgId = src,
      meta_targetOrgId = tgt,
      recordCount = n,
      meta_isValid = isValid vr,
      errorCount = errors (summary vr),
      warningCount = warnings (summary vr),
      errorTypes = foldl (tally proto) Map.empty
        (map title (filter (\<lambda>i. severity i = Error) (issues vr)))\<rparr>"

text \<open>
  Lines 191-218: the inner \<open>try\<close>. Whatever \<open>requireAuth\<close> or \<open>trackEvent\<close> throws is
  caught and written to the console; the step yields nothing but its calls.
\<close>

definition track_validation ::
  "env \<Rightarrow> json \<Rightarrow> json \<Rightarrow> json \<Rightarrow> nat \<Rightarrow> ValidationResult \<Rightarrow> call list" where
  "track_validation e tid src tgt n vr =
     (case requireAuth e of
        Inl trackingError \<Rightarrow>
          [Call_requireAuth, Call_console_error ''Failed to track validation event:'']
      | Inr authSession \<Rightarrow>
          (case trackEvent e (usage_event (object_prototype e) authSession tid src tgt n vr) of
             Inl trackingError \<Rightarrow>
               [Call_requireAuth, Call_trackEvent (usage_event (object_prototype e) authSession tid src tgt n vr),
                Call_console_error ''Failed to track validation event:'']
           | Inr u \<Rightarrow>
               [Call_requireAuth, Call_trackEvent (usage_event (object_prototype e) authSession tid src tgt n vr)]))"

subsection \<open>The handler\<close>

text \<open>Lines 69-223: from the record pre-check on, for a resolved source organisation and template.\<close>

definition validate_records ::
  "env \<Rightarrow> json \<Rightarrow> json \<Rightarrow> json \<Rightarrow> json list \<Rightarrow> json option \<Rightarrow> Organisation \<Rightarrow> Template
     \<Rightarrow> (thrown + Response) \<times> call list" where
  "validate_records e src tgt tid recs names sourceOrg template =
     (case validateSelectedRecords e src recs (objectType template) of
        Inl err \<Rightarrow> (Inl err, [Call_validateSelectedRecords src recs (objectType template)])
      | Inr recordValidation \<Rightarrow>
          if \<not> valid recordValidation then
            (Inr \<lparr>status = 200,
                  body = Body_validation False (invalid_selection_result recordValidation names)\<rparr>,
             [Call_validateSelectedRecords src recs (objectType template)])
          else
            (case validateTemplate e template src tgt recs (instance_url sourceOrg) of
               Inl err \<Rightarrow>
                 (Inl err,
                  [Call_validateSelectedRecords src recs (objectType template), Call_validateTemplate])
             | Inr er \<Rightarrow>
                 (Inr \<lparr>status = 200,
                       body = Body_validation True (engine_validation_result er (length recs) names)\<rparr>,
                  [Call_validateSelectedRecords src recs (objectType template), Call_validateTemplate]
                  @ track_validation e tid src tgt (length recs)
                      (engine_validation_result er (length recs) names))))"

text \<open>Lines 47-67: both organisations, then the template.\<close>

definition resolve ::
  "env \<Rightarrow> json \<Rightarrow> json \<Rightarrow> json \<Rightarrow> json list \<Rightarrow> json option \<Rightarrow> (thrown + Response) \<times> call list" where
  "resolve e src tgt tid recs names =
     (case promise_all2 (second_rejects_first e) (findUnique e src) (findUnique e tgt) of
        Inl err \<Rightarrow> (Inl err, [Call_findUnique src, Call_findUnique tgt])
      | Inr (sourceOrg, targetOrg) \<Rightarrow>
          (case (sourceOrg, targetOrg) of
             (Some so, Some to) \<Rightarrow>
               (case getTemplate e tid of
                  Inl err \<Rightarrow> (Inl err, [Call_findUnique src, Call_findUnique tgt, Call_getTemplate tid])
                | Inr None \<Rightarrow>
                    (Inr \<lparr>status = 404, body = Body_error ''Template not found''\<rparr>,
                     [Call_findUnique src, Call_findUnique tgt, Call_getTemplate tid])
                | Inr (Some template) \<Rightarrow>
                    (let r = validate_records e src tgt tid recs names so template
                     in (fst r, [Call_findUnique src, Call_findUnique tgt, Call_getTemplate tid] @ snd r)))
           | _ \<Rightarrow>
               (Inr \<lparr>status = 404, body = Body_error ''Source or target organisation not found''\<rparr>,
                [Call_findUnique src, Call_findUnique tgt])))"

text \<open>
  Lines 36-223: the body of the outer \<open>try\<close>. Destructuring \<open>null\<close> at line 38 throws a
  \<open>TypeError\<close>, an \<open>Error\<close>, before anything else is done.
\<close>

definition POST_try :: "env \<Rightarrow> (thrown + Response) \<times> call list" where
  "POST_try e =
     (case request_json e of
        Inl err \<Rightarrow> (Inl err, [Call_request_json])
      | Inr Body_null \<Rightarrow> (Inl (Error_obj (destructure_null_message e)), [Call_request_json])
      | Inr (Body_object b) \<Rightarrow>
          (case required_params b of
             None \<Rightarrow>
               (Inr \<lparr>status = 400, body = Body_error ''Missing required validation parameters''\<rparr>,
                [Call_request_json])
           | Some (src, tgt, tid, recs) \<Rightarrow>
               (let r = resolve e src tgt tid recs (body_selectedRecordNames b)
                in (fst r, Call_request_json # snd r))))"

text \<open>Lines 229-235: the messages taken for an expired or missing connection.\<close>

definition token_related :: "string \<Rightarrow> bool" where
  "token_related m =
     (js_includes m ''invalid_grant'' \<or> js_includes m ''expired''
      \<or> js_includes m ''INVALID_SESSION_ID''
      \<or> js_includes m ''Authentication token has expired''
      \<or> js_includes m ''not connected'')"

text \<open>Lines 225-253: the outer \<open>catch\<close>, after its \<open>console.error\<close>.\<close>

definition handle_error :: "thrown \<Rightarrow> Response" where
  "handle_error err =
     (case err of
        Error_obj m \<Rightarrow>
          if token_related m then
            \<lparr>status = 401,
             body = Body_token_expired
               ''Authentication token has expired. Please reconnect the organisation.''
               ''TOKEN_EXPIRED'' ''/orgs''\<rparr>
          else \<lparr>status = 500, body = Body_failed ''Validation failed'' m\<rparr>
      | Non_error \<Rightarrow> \<lparr>status = 500, body = Body_failed ''Validation failed'' ''Unknown error''\<rparr>)"

text \<open>The handler: the response and the calls made, in order.\<close>

definition POST :: "env \<Rightarrow> Response \<times> call list" where
  "POST e =
     (case POST_try e of
        (Inr response, calls) \<Rightarrow> (response, calls)
      | (Inl err, calls) \<Rightarrow> (handle_error err, calls @ [Call_console_error ''Validation error:'']))"

subsection \<open>The naming pattern, and the time the tracking step takes\<close>

text \<open>
  The naming pattern "Invalid ... Values" read as the specification words it, a fixed
  prefix and a fixed suffix around a middle part; it is compared below with what line 128
  tests.
\<close>

definition invalid_values_pattern :: "string \<Rightarrow> bool" where
  "invalid_values_pattern t =
     (length ''Invalid '' + length '' Values'' \<le> length t
      \<and> take (length ''Invalid '') t = ''Invalid ''
      \<and> drop (length t - length '' Values'') t = '' Values'')"

text \<open>The report a response carries, if it carries one.\<close>

definition validation_of :: "Response \<Rightarrow> ValidationResult option" where
  "validation_of r = (case body r of Body_validation ok v \<Rightarrow> Some v | _ \<Rightarrow> None)"



subsection \<open>A concrete scenario\<close>

text \<open>
  Two connected organisations, one template, two selected records that pass the
  pre-check, and an engine that reports one error and two warnings (the first example
  scenario of the specification). The theorems below are evaluated on it and on variants
  of it.
\<close>

definition example_body :: RequestBody where
  "example_body =
     \<lparr>sourceOrgId = Some (JStr ''org-a''),
      targetOrgId = Some (JStr ''org-b''),
      templateId = Some (JStr ''pay-codes''),
      selectedRecords = Some [JStr ''rec1'', JStr ''rec2''],
      body_selectedRecordNames = Some (JObj [(''rec1'', JStr ''Overtime'')])\<rparr>"

definition example_template :: Template where
  "example_template =
     \<lparr>etlSteps = [\<lparr>extractConfig = Some \<lparr>objectApiName = Some ''tc9_pr__Pay_Code__c''\<rparr>\<rparr>]\<rparr>"

definition example_finding :: "string \<Rightarrow> Finding" where
  "example_finding name =
     \<lparr>checkName = name,
      message = ''found in rec1'',
      finding_recordId = Some ''rec1'',
      finding_recordLink = None,
      suggestedAction = Some [],
      finding_parentRecordId = None\<rparr>"

definition example_engine_result :: EngineResult where
  "example_engine_result =
     \<lparr>engine_errors = [example_finding ''Invalid Picklist Values''],
      engine_warnings = [example_finding ''Inactive Owner'', example_finding ''Unmapped Field''],
      engine_info = []\<rparr>"

definition example_env :: env where
  "example_env =
     \<lparr>request_json = Inr (Body_object example_body),
      destructure_null_message =
        ''Cannot destructure property 'sourceOrgId' of 'body' as it is null.'',
      object_prototype = map_of
        [(''constructor'', ''function Object() { [native code] }''),
         (''toString'', ''function toString() { [native code] }''),
         (''valueOf'', ''function valueOf() { [native code] }''),
         (''hasOwnProperty'', ''function hasOwnProperty() { [native code] }''),
         (''__proto__'', ''[object Object]'')],
      findUnique = (\<lambda>i. if i = JStr ''org-a'' then Inr (Some \<lparr>org_id = ''org-a'', instance_url = ''https://a.example''\<rparr>)
                        else if i = JStr ''org-b'' then Inr (Some \<lparr>org_id = ''org-b'', instance_url = ''https://b.example''\<rparr>)
                        else Inr None),
      second_rejects_first = False,
      getTemplate = (\<lambda>i. if i = JStr ''pay-codes'' then Inr (Some example_template) else Inr None),
      validateSelectedRecords = (\<lambda>src recs t. Inr \<lparr>valid = True, precheck_errors = [], invalidRecords = []\<rparr>),
      validateTemplate = (\<lambda>t src tgt recs url. Inr example_engine_result),
      requireAuth = Inr \<lparr>user_id = ''user-1''\<rparr>,
      trackEvent = (\<lambda>ev. Inr ())\<rparr>"

text \<open>The same request when the second selected record is of the wrong type.\<close>

definition example_invalid_selection :: RecordValidation where
  "example_invalid_selection =
     \<lparr>valid = False,
      precheck_errors = [''Record rec2 is not a tc9_pr__Pay_Code__c''],
      invalidRecords = [''rec2'']\<rparr>"

text \<open>
  The second example scenario of the specification: 201 selected records that pass the
  pre-check, and an engine that reports nothing.
\<close>

definition example_large_env :: env where
  "example_large_env =
     example_env
       \<lparr>request_json := Inr (Body_object
          (example_body\<lparr>selectedRecords := Some (replicate 201 (JStr ''rec''))\<rparr>)),
        validateTemplate := (\<lambda>t src tgt recs url.
          Inr \<lparr>engine_errors = [], engine_warnings = [], engine_info = []\<rparr>)\<rparr>"

section \<open>Properties of the handler\<close>

subsection \<open>Auxiliary facts\<close>

lemmas handler_defs = POST_def POST_try_def resolve_def validate_records_def required_params_def
  promise_all2_def objectType_def track_validation_def handle_error_def

lemmas example_defs = example_env_def example_body_def example_template_def
  example_engine_result_def example_finding_def example_invalid_selection_def

text \<open>The severity of each kind of issue, and the counts of the engine's issue list.\<close>

lemma severity_error_issue: "severity (error_issue k x) = Error"
  by (simp add: error_issue_def)

lemma severity_warning_issue: "severity (warning_issue k x) = Warning"
  by (simp add: warning_issue_def)

lemma severity_info_issue: "severity (info_issue k x) = Info"
  by (simp add: info_issue_def)

lemma severity_large_batch_warning: "severity (large_batch_warning n) = Warning"
  by (simp add: large_batch_warning_def)

lemmas severity_simps = severity_error_issue severity_warning_issue severity_info_issue
  severity_large_batch_warning

lemma errors_engine_issues:
  "errors (summarise (engine_issues er n)) = length (engine_errors er)"
  by (simp add: summarise_def engine_issues_def filter_map o_def split_def severity_simps)

lemma warnings_engine_issues:
  "warnings (summarise (engine_issues er n)) = length (engine_warnings er) + (if n > 200 then 1 else 0)"
  by (simp add: summarise_def engine_issues_def filter_map o_def split_def severity_simps)

lemma info_engine_issues:
  "info (summarise (engine_issues er n)) = length (engine_info er)"
  by (simp add: summarise_def engine_issues_def filter_map o_def split_def severity_simps)

text \<open>
  Forwards: what the handler does once the organisations and the template are resolved.
  Backwards: a 200 response comes from one of two places, the short-circuit or the
  completed engine run.
\<close>

lemma path_to_precheck:
  assumes "request_json e = Inr (Body_object b)"
    and "required_params b = Some (src, tgt, tid, recs)"
    and "findUnique e src = Inr (Some so)"
    and "findUnique e tgt = Inr (Some to)"
    and "getTemplate e tid = Inr (Some tpl)"
  shows "POST_try e =
    (fst (validate_records e src tgt tid recs (body_selectedRecordNames b) so tpl),
     [Call_request_json, Call_findUnique src, Call_findUnique tgt, Call_getTemplate tid]
     @ snd (validate_records e src tgt tid recs (body_selectedRecordNames b) so tpl))"
  using assms by (simp add: POST_try_def resolve_def promise_all2_def Let_def)

lemma validate_records_ok:
  assumes "fst (validate_records e src tgt tid recs names so tpl) = Inr r"
  shows "\<exists>rv. validateSelectedRecords e src recs (objectType tpl) = Inr rv
           \<and> ((\<not> valid rv \<and> r = \<lparr>status = 200, body = Body_validation False
                    (invalid_selection_result rv names)\<rparr>)
              \<or> (valid rv \<and> (\<exists>er. validateTemplate e tpl src tgt recs (instance_url so) = Inr er
                    \<and> r = \<lparr>status = 200, body = Body_validation True
                        (engine_validation_result er (length recs) names)\<rparr>)))"
  using assms
  by (auto simp: validate_records_def split: sum.splits if_splits)

lemma resolve_ok:
  assumes "fst (resolve e src tgt tid recs names) = Inr r" and "status r = 200"
  shows "\<exists>so to tpl. findUnique e src = Inr (Some so) \<and> findUnique e tgt = Inr (Some to)
           \<and> getTemplate e tid = Inr (Some tpl)
           \<and> fst (validate_records e src tgt tid recs names so tpl) = Inr r"
  using assms
  by (auto simp: resolve_def promise_all2_def Let_def
      split: sum.splits option.splits prod.splits if_splits)

lemma POST_try_ok:
  assumes "fst (POST_try e) = Inr r" and "status r = 200"
  shows "\<exists>b src tgt tid recs. request_json e = Inr (Body_object b)
           \<and> required_params b = Some (src, tgt, tid, recs)
           \<and> fst (resolve e src tgt tid recs (body_selectedRecordNames b)) = Inr r"
  using assms
  by (auto simp: POST_try_def Let_def
      split: sum.splits option.splits prod.splits parsed_body.splits)

lemma status_handle_error: "status (handle_error x) \<noteq> 200"
  by (simp add: handle_error_def split: thrown.splits)

lemma POST_ok:
  assumes "status (fst (POST e)) = 200"
  shows "fst (POST_try e) = Inr (fst (POST e))"
  using assms status_handle_error
  by (auto simp: POST_def split: sum.splits prod.splits)

lemma ok_response_cases [consumes 1, case_names short_circuit engine]:
  assumes ok: "status (fst (POST e)) = 200"
  obtains
    (short_circuit) b src tgt tid recs so to tpl rv where
      "request_json e = Inr (Body_object b)" and "required_params b = Some (src, tgt, tid, recs)"
      and "findUnique e src = Inr (Some so)" and "findUnique e tgt = Inr (Some to)"
      and "getTemplate e tid = Inr (Some tpl)"
      and "validateSelectedRecords e src recs (objectType tpl) = Inr rv"
      and "\<not> valid rv"
      and "fst (POST e) = \<lparr>status = 200, body = Body_validation False
             (invalid_selection_result rv (body_selectedRecordNames b))\<rparr>"
  | (engine) b src tgt tid recs so to tpl rv er where
      "request_json e = Inr (Body_object b)" and "required_params b = Some (src, tgt, tid, recs)"
      and "findUnique e src = Inr (Some so)" and "findUnique e tgt = Inr (Some to)"
      and "getTemplate e tid = Inr (Some tpl)"
      and "validateSelectedRecords e src recs (objectType tpl) = Inr rv"
      and "valid rv"
      and "validateTemplate e tpl src tgt recs (instance_url so) = Inr er"
      and "fst (POST e) = \<lparr>status = 200, body = Body_validation True
             (engine_validation_result er (length recs) (body_selectedRecordNames b))\<rparr>"
proof -
  from ok have "fst (POST_try e) = Inr (fst (POST e))" by (rule POST_ok)
  from POST_try_ok [OF this ok] obtain b src tgt tid recs where
    b1: "request_json e = Inr (Body_object b)" and b2: "required_params b = Some (src, tgt, tid, recs)"
    and res: "fst (resolve e src tgt tid recs (body_selectedRecordNames b)) = Inr (fst (POST e))"
    by blast
  from resolve_ok [OF res ok] obtain so to tpl where
    o1: "findUnique e src = Inr (Some so)" and o2: "findUnique e tgt = Inr (Some to)"
    and o3: "getTemplate e tid = Inr (Some tpl)"
    and v: "fst (validate_records e src tgt tid recs (body_selectedRecordNames b) so tpl)
        = Inr (fst (POST e))"
    by blast
  from validate_records_ok [OF v] obtain rv where
    rv: "validateSelectedRecords e src recs (objectType tpl) = Inr rv"
    and d: "(\<not> valid rv \<and> fst (POST e) = \<lparr>status = 200, body = Body_validation False
                (invalid_selection_result rv (body_selectedRecordNames b))\<rparr>)
        \<or> (valid rv \<and> (\<exists>er. validateTemplate e tpl src tgt recs (instance_url so) = Inr er
                \<and> fst (POST e) = \<lparr>status = 200, body = Body_validation True
                   (engine_validation_result er (length recs) (body_selectedRecordNames b))\<rparr>))"
    by (elim exE conjE)
  from d show thesis
  proof
    assume a: "\<not> valid rv \<and> fst (POST e) = \<lparr>status = 200, body = Body_validation False
                (invalid_selection_result rv (body_selectedRecordNames b))\<rparr>"
    show thesis
      by (rule short_circuit [OF b1 b2 o1 o2 o3 rv conjunct1 [OF a] conjunct2 [OF a]])
  next
    assume a: "valid rv \<and> (\<exists>er. validateTemplate e tpl src tgt recs (instance_url so) = Inr er
                \<and> fst (POST e) = \<lparr>status = 200, body = Body_validation True
                   (engine_validation_result er (length recs) (body_selectedRecordNames b))\<rparr>)"
    then obtain er where
      er: "validateTemplate e tpl src tgt recs (instance_url so) = Inr er"
      and eq: "fst (POST e) = \<lparr>status = 200, body = Body_validation True
                   (engine_validation_result er (length recs) (body_selectedRecordNames b))\<rparr>"
      by (elim exE conjE)
    show thesis
      by (rule engine [OF b1 b2 o1 o2 o3 rv conjunct1 [OF a] er eq])
  qed
qed

lemma POST_on_path:
  assumes "request_json e = Inr (Body_object b)"
    and "required_params b = Some (src, tgt, tid, recs)"
    and "findUnique e src = Inr (Some so)"
    and "findUnique e tgt = Inr (Some to)"
    and "getTemplate e tid = Inr (Some tpl)"
    and "validateSelectedRecords e src recs (objectType tpl) = Inr rv"
  shows "\<not> valid rv \<Longrightarrow> POST e =
      (\<lparr>status = 200, body = Body_validation False
          (invalid_selection_result rv (body_selectedRecordNames b))\<rparr>,
       [Call_request_json, Call_findUnique src, Call_findUnique tgt, Call_getTemplate tid,
        Call_validateSelectedRecords src recs (objectType tpl)])"
    and "valid rv \<Longrightarrow> validateTemplate e tpl src tgt recs (instance_url so) = Inr er \<Longrightarrow> POST e =
      (\<lparr>status = 200, body = Body_validation True
          (engine_validation_result er (length recs) (body_selectedRecordNames b))\<rparr>,
       [Call_request_json, Call_findUnique src, Call_findUnique tgt, Call_getTemplate tid,
        Call_validateSelectedRecords src recs (objectType tpl), Call_validateTemplate]
       @ track_validation e tid src tgt (length recs)
           (engine_validation_result er (length recs) (body_selectedRecordNames b)))"
    and "valid rv \<Longrightarrow> validateTemplate e tpl src tgt recs (instance_url so) = Inl x \<Longrightarrow> POST e =
      (handle_error x,
       [Call_request_json, Call_findUnique src, Call_findUnique tgt, Call_getTemplate tid,
        Call_validateSelectedRecords src recs (objectType tpl), Call_validateTemplate,
        Call_console_error ''Validation error:''])"
  using assms
  by (simp_all add: POST_def path_to_precheck [OF assms(1-5)] validate_records_def)

text \<open>The parts of the two reports.\<close>

lemma names_invalid_selection:
  "selectedRecordNames (invalid_selection_result rv names) = Some (names_or_empty names)"
  by (simp add: invalid_selection_result_def Let_def)

lemma names_engine_result:
  "selectedRecordNames (engine_validation_result er n names) = Some (names_or_empty names)"
  by (simp add: engine_validation_result_def Let_def)

lemma issues_invalid_selection:
  "issues (invalid_selection_result rv names) =
     map (\<lambda>(index, error). record_validation_issue (invalidRecords rv) index error)
       (enumerate 0 (precheck_errors rv))"
  by (simp add: invalid_selection_result_def Let_def)

lemma summary_invalid_selection:
  "summary (invalid_selection_result rv names) =
     \<lparr>errors = length (precheck_errors rv), warnings = 0, info = 0\<rparr>"
  by (simp add: invalid_selection_result_def Let_def)

lemma summarise_invalid_selection:
  "summarise (issues (invalid_selection_result rv names)) = summary (invalid_selection_result rv names)"
  by (simp add: summary_invalid_selection issues_invalid_selection summarise_def filter_map o_def
      split_def record_validation_issue_def)

lemma summary_engine_result:
  "summary (engine_validation_result er n names) = summarise (issues (engine_validation_result er n names))"
  by (simp add: engine_validation_result_def Let_def)

lemma issues_engine_result:
  "issues (engine_validation_result er n names) = engine_issues er n"
  by (simp add: engine_validation_result_def Let_def)

lemma flags_engine_result:
  "isValid (engine_validation_result er n names) = (errors (summary (engine_validation_result er n names)) = 0)"
  "hasErrors (engine_validation_result er n names) = (errors (summary (engine_validation_result er n names)) > 0)"
  "hasWarnings (engine_validation_result er n names) = (warnings (summary (engine_validation_result er n names)) > 0)"
  by (simp_all add: engine_validation_result_def Let_def)

lemma flags_invalid_selection:
  "isValid (invalid_selection_result rv names) = False"
  "hasErrors (invalid_selection_result rv names) = True"
  "hasWarnings (invalid_selection_result rv names) = False"
  by (simp_all add: invalid_selection_result_def Let_def)

text \<open>The scenario reaches the pre-check.\<close>

lemma example_path:
  "required_params example_body =
     Some (JStr ''org-a'', JStr ''org-b'', JStr ''pay-codes'', [JStr ''rec1'', JStr ''rec2''])"
  "findUnique example_env (JStr ''org-a'') =
     Inr (Some \<lparr>org_id = ''org-a'', instance_url = ''https://a.example''\<rparr>)"
  "findUnique example_env (JStr ''org-b'') =
     Inr (Some \<lparr>org_id = ''org-b'', instance_url = ''https://b.example''\<rparr>)"
  "getTemplate example_env (JStr ''pay-codes'') = Inr (Some example_template)"
  by (simp_all add: required_params_def example_env_def example_body_def)

text \<open>The batch warning is appended to the engine's findings, none of which has its id.\<close>

lemma issue_id_engine_issues:
  "i \<in> set (engine_issues er 0) \<Longrightarrow> issue_id i \<noteq> ''large-batch-warning''"
  by (auto simp: engine_issues_def error_issue_def warning_issue_def info_issue_def)

lemma engine_issues_append:
  "engine_issues er n = engine_issues er 0 @ (if n > 200 then [large_batch_warning n] else [])"
  by (simp add: engine_issues_def)

lemma isValid_engine_result:
  "isValid (engine_validation_result er n names) = (engine_errors er = [])"
  by (simp add: flags_engine_result summary_engine_result issues_engine_result errors_engine_issues)

lemma example_large_path:
  "request_json example_large_env = Inr (Body_object (example_body\<lparr>selectedRecords := Some (replicate 201 (JStr ''rec''))\<rparr>))"
  "required_params (example_body\<lparr>selectedRecords := Some (replicate 201 (JStr ''rec''))\<rparr>) =
     Some (JStr ''org-a'', JStr ''org-b'', JStr ''pay-codes'', replicate 201 (JStr ''rec''))"
  "findUnique example_large_env (JStr ''org-a'') =
     Inr (Some \<lparr>org_id = ''org-a'', instance_url = ''https://a.example''\<rparr>)"
  "findUnique example_large_env (JStr ''org-b'') =
     Inr (Some \<lparr>org_id = ''org-b'', instance_url = ''https://b.example''\<rparr>)"
  "getTemplate example_large_env (JStr ''pay-codes'') = Inr (Some example_template)"
  "validateSelectedRecords example_large_env (JStr ''org-a'') (replicate 201 (JStr ''rec''))
     (objectType example_template) = Inr \<lparr>valid = True, precheck_errors = [], invalidRecords = []\<rparr>"
  "validateTemplate example_large_env example_template (JStr ''org-a'') (JStr ''org-b'')
     (replicate 201 (JStr ''rec'')) ''https://a.example''
     = Inr \<lparr>engine_errors = [], engine_warnings = [], engine_info = []\<rparr>"
  by (simp_all add: example_large_env_def required_params_def example_env_def example_body_def)




lemma fst_POST: "fst (POST e) = (case fst (POST_try e) of Inr r \<Rightarrow> r | Inl x \<Rightarrow> handle_error x)"
  by (simp add: POST_def split: prod.splits sum.splits)




text \<open>The calls whose exception leaves the outer \<open>try\<close>.\<close>

lemma POST_try_throws:
  assumes "request_json e = Inl x
     \<or> (\<exists>b src tgt tid recs. request_json e = Inr (Body_object b) \<and> required_params b = Some (src, tgt, tid, recs)
          \<and> (promise_all2 (second_rejects_first e) (findUnique e src) (findUnique e tgt) = Inl x
              \<or> (\<exists>so to. findUnique e src = Inr (Some so) \<and> findUnique e tgt = Inr (Some to)
                   \<and> (getTemplate e tid = Inl x
                       \<or> (\<exists>tpl. getTemplate e tid = Inr (Some tpl)
                            \<and> (validateSelectedRecords e src recs (objectType tpl) = Inl x
                                \<or> (\<exists>rv. validateSelectedRecords e src recs (objectType tpl) = Inr rv
                                     \<and> valid rv
                                     \<and> validateTemplate e tpl src tgt recs (instance_url so) = Inl x)))))))"
  shows "fst (POST_try e) = Inl x"
  using assms
  by (elim disjE exE conjE)
    (simp_all add: POST_try_def resolve_def validate_records_def promise_all2_def Let_def)

lemma token_related_if:
  "js_includes m ''INVALID_SESSION_ID'' \<or> js_includes m ''invalid_grant''
     \<or> js_includes m ''expired'' \<or> js_includes m ''not connected'' \<Longrightarrow> token_related m"
  by (auto simp: token_related_def)

text \<open>Searching and replacing in a check name of the form "Invalid X Values".\<close>

lemma js_includes_append: "js_includes ys s \<Longrightarrow> js_includes (xs @ ys) s"
  by (induction xs) auto

lemma starts_with_append_fresh:
  "starts_with (ys @ a # r) q \<Longrightarrow> a \<notin> set q \<Longrightarrow> starts_with ys q"
  by (induction ys q rule: starts_with.induct) auto

lemma js_replace_suffix:
  "\<not> js_includes x '' Values'' \<Longrightarrow> js_replace (x @ '' Values'') '' Values'' [] = x"
proof (induction x)
  case Nil
  show ?case by simp
next
  case (Cons c cs)
  from Cons.prems have n: "\<not> starts_with (c # cs) '' Values''" and r: "\<not> js_includes cs '' Values''"
    by simp_all
  have ns: "\<not> starts_with (c # (cs @ '' Values'')) '' Values''"
  proof
    assume "starts_with (c # (cs @ '' Values'')) '' Values''"
    then have c: "c = CHR '' ''" and "starts_with (cs @ CHR '' '' # ''Values'') ''Values''"
      by simp_all
    from starts_with_append_fresh [OF this(2)] have "starts_with cs ''Values''" by simp
    with c n show False by simp
  qed
  have "js_replace ((c # cs) @ '' Values'') '' Values'' [] = js_replace (c # (cs @ '' Values'')) '' Values'' []"
    by (simp only: append_Cons)
  also from ns have "\<dots> = c # js_replace (cs @ '' Values'') '' Values'' []"
    by (simp only: js_replace.simps if_False)
  also have "\<dots> = c # cs"
    by (simp only: Cons.IH [OF r])
  finally show ?case .
qed

lemma field_of_invalid_values:
  assumes "checkName x = ''Invalid '' @ m @ '' Values''" and "\<not> js_includes m '' Values''"
  shows "field (error_issue k x) = Some m"
proof -
  have "js_includes ('' Values'') ''Values''" by simp
  then have "js_includes (''Invalid '' @ m @ '' Values'') ''Values''"
    by (simp only: js_includes_append append_assoc [symmetric])
  moreover have "js_includes (''Invalid '' @ m @ '' Values'') ''Invalid''" by simp
  moreover have "js_replace (''Invalid '' @ m @ '' Values'') ''Invalid '' [] = m @ '' Values''" by simp
  ultimately show ?thesis
    using assms by (simp add: error_issue_def js_replace_suffix)
qed

lemma field_not_error:
  "i \<in> set (engine_issues er n) \<Longrightarrow> severity i \<noteq> Error \<Longrightarrow> field i = None"
  by (auto simp: engine_issues_def error_issue_def warning_issue_def info_issue_def
      large_batch_warning_def split: if_splits)

lemma nth_engine_issues_error:
  "k < length (engine_errors er) \<Longrightarrow> engine_issues er n ! k = error_issue k (engine_errors er ! k)"
  by (simp add: engine_issues_def nth_append nth_enumerate_eq)

text \<open>The outer \<open>catch\<close> never answers 400; the calls and the time of the tracking step.\<close>

lemma status_handle_error_400: "status (handle_error x) \<noteq> 400"
  by (simp add: handle_error_def split: thrown.splits)



subsection \<open>C1: the validity flags and the summary counts\<close>




subsection \<open>C2: the summary counts are the sizes of the severity classes\<close>

text \<open>
  Claim C2. For every \<open>ValidationResult\<close> returned in a 200 response,
  \<open>summary.errors\<close> is the number of issues of severity \<open>error\<close>, \<open>summary.warnings\<close>
  the number of severity \<open>warning\<close> and \<open>summary.info\<close> the number of severity
  \<open>info\<close>.
\<close>

theorem summary_counts_partition:
  assumes "status (fst (POST e)) = 200"
  shows "\<exists>ok v. body (fst (POST e)) = Body_validation ok v
           \<and> errors (summary v) = length (filter (\<lambda>i. severity i = Error) (issues v))
           \<and> warnings (summary v) = length (filter (\<lambda>i. severity i = Warning) (issues v))
           \<and> info (summary v) = length (filter (\<lambda>i. severity i = Info) (issues v))"
  using assms
proof (cases rule: ok_response_cases)
  case (short_circuit b src tgt tid recs so to tpl rv)
  have "summary (invalid_selection_result rv (body_selectedRecordNames b))
      = summarise (issues (invalid_selection_result rv (body_selectedRecordNames b)))"
    by (simp add: summarise_invalid_selection)
  with short_circuit(8) show ?thesis by (auto simp: summarise_def)
next
  case (engine b src tgt tid recs so to tpl rv er)
  from engine(9) show ?thesis by (auto simp: summary_engine_result summarise_def)
qed

theorem summary_counts_partition_witness:
  "status (fst (POST example_env)) = 200
   \<and> (\<exists>ok v. body (fst (POST example_env)) = Body_validation ok v
        \<and> errors (summary v) = length (filter (\<lambda>i. severity i = Error) (issues v))
        \<and> warnings (summary v) = length (filter (\<lambda>i. severity i = Warning) (issues v))
        \<and> info (summary v) = length (filter (\<lambda>i. severity i = Info) (issues v)))"
proof -
  have h: "status (fst (POST example_env)) = 200"
    by (simp add: handler_defs example_defs)
  from summary_counts_partition [OF h] h show ?thesis by blast
qed

subsection \<open>C3: an invalid record selection short-circuits\<close>

text \<open>
  Claim C3. For every request in which the record-selection pre-check returns
  \<open>valid = false\<close>, the handler never calls the validation engine, and the returned
  \<open>ValidationResult\<close> has exactly one error issue per entry of the pre-check's \<open>errors\<close>,
  in the same order, titled "Invalid Record Selection", described by that entry and
  carrying the entry of \<open>invalidRecords\<close> at the same index (none when that list is
  shorter); it has zero warnings, zero info, and \<open>isValid = false\<close>.
\<close>

theorem invalid_selection_short_circuits:
  assumes "request_json e = Inr (Body_object b)"
    and "required_params b = Some (src, tgt, tid, recs)"
    and "findUnique e src = Inr (Some so)"
    and "findUnique e tgt = Inr (Some to)"
    and "getTemplate e tid = Inr (Some tpl)"
    and "validateSelectedRecords e src recs (objectType tpl) = Inr rv"
    and "\<not> valid rv"
  shows "\<exists>v. fst (POST e) = \<lparr>status = 200, body = Body_validation False v\<rparr>
           \<and> Call_validateTemplate \<notin> set (snd (POST e))
           \<and> length (issues v) = length (precheck_errors rv)
           \<and> (\<forall>k<length (precheck_errors rv).
                 issue_id (issues v ! k) = ''record-validation-error-'' @ show_nat k
                 \<and> severity (issues v ! k) = Error
                 \<and> title (issues v ! k) = ''Invalid Record Selection''
                 \<and> description (issues v ! k) = precheck_errors rv ! k
                 \<and> recordId (issues v ! k) = nth_opt (invalidRecords rv) k)
           \<and> errors (summary v) = length (precheck_errors rv)
           \<and> warnings (summary v) = 0
           \<and> info (summary v) = 0
           \<and> \<not> isValid v"
proof -
  let ?v = "invalid_selection_result rv (body_selectedRecordNames b)"
  from POST_on_path(1) [OF assms(1-6) assms(7)]
  have p: "POST e = (\<lparr>status = 200, body = Body_validation False ?v\<rparr>,
       [Call_request_json, Call_findUnique src, Call_findUnique tgt, Call_getTemplate tid,
        Call_validateSelectedRecords src recs (objectType tpl)])" .
  have i: "\<forall>k<length (precheck_errors rv).
      issue_id (issues ?v ! k) = ''record-validation-error-'' @ show_nat k
      \<and> severity (issues ?v ! k) = Error
      \<and> title (issues ?v ! k) = ''Invalid Record Selection''
      \<and> description (issues ?v ! k) = precheck_errors rv ! k
      \<and> recordId (issues ?v ! k) = nth_opt (invalidRecords rv) k"
    by (simp add: issues_invalid_selection nth_enumerate_eq record_validation_issue_def)
  have l: "length (issues ?v) = length (precheck_errors rv)"
    by (simp add: issues_invalid_selection)
  have s: "errors (summary ?v) = length (precheck_errors rv)" "warnings (summary ?v) = 0"
    "info (summary ?v) = 0" "\<not> isValid ?v"
    by (simp_all add: summary_invalid_selection flags_invalid_selection)
  from p have "fst (POST e) = \<lparr>status = 200, body = Body_validation False ?v\<rparr>"
    and "Call_validateTemplate \<notin> set (snd (POST e))"
    by simp_all
  with i l s show ?thesis by blast
qed

theorem invalid_selection_short_circuits_witness:
  "\<not> valid example_invalid_selection
   \<and> (\<exists>v. fst (POST (example_env\<lparr>validateSelectedRecords := \<lambda>src recs t. Inr example_invalid_selection\<rparr>))
          = \<lparr>status = 200, body = Body_validation False v\<rparr>
        \<and> Call_validateTemplate
            \<notin> set (snd (POST (example_env\<lparr>validateSelectedRecords := \<lambda>src recs t. Inr example_invalid_selection\<rparr>)))
        \<and> length (issues v) = 1
        \<and> issue_id (issues v ! 0) = ''record-validation-error-0''
        \<and> severity (issues v ! 0) = Error
        \<and> title (issues v ! 0) = ''Invalid Record Selection''
        \<and> description (issues v ! 0) = ''Record rec2 is not a tc9_pr__Pay_Code__c''
        \<and> recordId (issues v ! 0) = Some ''rec2''
        \<and> errors (summary v) = 1 \<and> warnings (summary v) = 0 \<and> info (summary v) = 0
        \<and> \<not> isValid v)"
proof -
  let ?e = "example_env\<lparr>validateSelectedRecords := \<lambda>src recs t. Inr example_invalid_selection\<rparr>"
  have nv: "\<not> valid example_invalid_selection"
    by (simp add: example_invalid_selection_def)
  have h1: "request_json ?e = Inr (Body_object example_body)"
    by (simp add: example_env_def)
  have h3: "findUnique ?e (JStr ''org-a'') =
      Inr (Some \<lparr>org_id = ''org-a'', instance_url = ''https://a.example''\<rparr>)"
    and h4: "findUnique ?e (JStr ''org-b'') =
      Inr (Some \<lparr>org_id = ''org-b'', instance_url = ''https://b.example''\<rparr>)"
    and h5: "getTemplate ?e (JStr ''pay-codes'') = Inr (Some example_template)"
    by (simp_all add: example_path)
  have h6: "validateSelectedRecords ?e (JStr ''org-a'') [JStr ''rec1'', JStr ''rec2'']
      (objectType example_template) = Inr example_invalid_selection"
    by simp
  from invalid_selection_short_circuits [OF h1 example_path(1) h3 h4 h5 h6 nv]
  show ?thesis
    using nv
    by (auto simp: example_invalid_selection_def nth_opt_def show_nat.simps digit_char_def)
qed

subsection \<open>C4: the large-batch warning\<close>

text \<open>
  Claim C4. For every request whose record selection passes the pre-check and whose
  \<open>selectedRecords\<close> has more than 200 entries, the returned issue list is the engine's
  findings followed by exactly one more issue, with id "large-batch-warning" and severity
  \<open>warning\<close>; \<open>isValid\<close> does not depend on it, being true exactly when the engine
  reported no error. With 200 entries or fewer no issue has that id. Here
  \<open>engine_issues er 0\<close> is the list of the engine's findings as issues, before the batch
  check.
\<close>

theorem large_batch_warning_over_200:
  assumes "request_json e = Inr (Body_object b)"
    and "required_params b = Some (src, tgt, tid, recs)"
    and "findUnique e src = Inr (Some so)"
    and "findUnique e tgt = Inr (Some to)"
    and "getTemplate e tid = Inr (Some tpl)"
    and "validateSelectedRecords e src recs (objectType tpl) = Inr rv"
    and "valid rv"
    and "validateTemplate e tpl src tgt recs (instance_url so) = Inr er"
  shows "\<exists>v. fst (POST e) = \<lparr>status = 200, body = Body_validation True v\<rparr>
           \<and> issues v = engine_issues er 0
                @ (if length recs > 200 then [large_batch_warning (length recs)] else [])
           \<and> (\<forall>i \<in> set (engine_issues er 0). issue_id i \<noteq> ''large-batch-warning'')
           \<and> issue_id (large_batch_warning (length recs)) = ''large-batch-warning''
           \<and> severity (large_batch_warning (length recs)) = Warning
           \<and> length (filter (\<lambda>i. issue_id i = ''large-batch-warning'') (issues v))
                = (if length recs > 200 then 1 else 0)
           \<and> isValid v = (engine_errors er = [])"
proof -
  let ?v = "engine_validation_result er (length recs) (body_selectedRecordNames b)"
  from POST_on_path(2) [OF assms(1-6) assms(7) assms(8)]
  have p: "fst (POST e) = \<lparr>status = 200, body = Body_validation True ?v\<rparr>"
    by simp
  have a: "issues ?v = engine_issues er 0
      @ (if length recs > 200 then [large_batch_warning (length recs)] else [])"
    by (simp only: issues_engine_result engine_issues_append [of er "length recs"])
  have n: "\<forall>i \<in> set (engine_issues er 0). issue_id i \<noteq> ''large-batch-warning''"
    by (simp add: issue_id_engine_issues)
  then have f: "filter (\<lambda>i. issue_id i = ''large-batch-warning'') (engine_issues er 0) = []"
    by (simp add: filter_empty_conv)
  have w: "issue_id (large_batch_warning (length recs)) = ''large-batch-warning''"
    "severity (large_batch_warning (length recs)) = Warning"
    by (simp_all add: large_batch_warning_def)
  have c: "length (filter (\<lambda>i. issue_id i = ''large-batch-warning'') (issues ?v))
      = (if length recs > 200 then 1 else 0)"
    by (simp add: a f w)
  have "isValid ?v = (engine_errors er = [])"
    by (rule isValid_engine_result)
  with p a n w c show ?thesis by blast
qed

theorem large_batch_warning_over_200_witness:
  "length (replicate 201 (JStr ''rec'')) > 200
   \<and> (\<exists>v. fst (POST example_large_env) = \<lparr>status = 200, body = Body_validation True v\<rparr>
        \<and> issues v = [large_batch_warning 201]
        \<and> severity (large_batch_warning 201) = Warning
        \<and> length (filter (\<lambda>i. issue_id i = ''large-batch-warning'') (issues v)) = 1
        \<and> isValid v)
   \<and> length [JStr ''rec1'', JStr ''rec2''] \<le> 200
   \<and> (\<exists>v. fst (POST example_env) = \<lparr>status = 200, body = Body_validation True v\<rparr>
        \<and> issues v = engine_issues example_engine_result 0
        \<and> length (filter (\<lambda>i. issue_id i = ''large-batch-warning'') (issues v)) = 0
        \<and> \<not> isValid v)"
proof -
  have v: "valid \<lparr>valid = True, precheck_errors = [], invalidRecords = []\<rparr>" by simp
  from large_batch_warning_over_200 [OF example_large_path(1-6) v]
  have 1: "\<exists>v. fst (POST example_large_env) = \<lparr>status = 200, body = Body_validation True v\<rparr>
        \<and> issues v = [large_batch_warning 201]
        \<and> severity (large_batch_warning 201) = Warning
        \<and> length (filter (\<lambda>i. issue_id i = ''large-batch-warning'') (issues v)) = 1
        \<and> isValid v"
    by (auto simp: example_large_path(7) engine_issues_def)
  have h1: "request_json example_env = Inr (Body_object example_body)"
    and h6: "validateSelectedRecords example_env (JStr ''org-a'') [JStr ''rec1'', JStr ''rec2'']
      (objectType example_template) = Inr \<lparr>valid = True, precheck_errors = [], invalidRecords = []\<rparr>"
    and h8: "validateTemplate example_env example_template (JStr ''org-a'') (JStr ''org-b'')
      [JStr ''rec1'', JStr ''rec2''] ''https://a.example'' = Inr example_engine_result"
    by (simp_all add: example_env_def)
  from large_batch_warning_over_200 [OF h1 example_path h6 v]
  have 2: "\<exists>v. fst (POST example_env) = \<lparr>status = 200, body = Body_validation True v\<rparr>
        \<and> issues v = engine_issues example_engine_result 0
        \<and> length (filter (\<lambda>i. issue_id i = ''large-batch-warning'') (issues v)) = 0
        \<and> \<not> isValid v"
    by (auto simp: h8 example_engine_result_def)
  from 1 2 show ?thesis by simp
qed

subsection \<open>C5: a token-related error that reaches the outer catch gives 401\<close>

text \<open>
  Claim C5, as stated: for every request during whose processing a downstream call throws
  an \<open>Error\<close> whose message contains "INVALID_SESSION_ID" (or "invalid_grant",
  "expired", "not connected"), the handler returns status 401 with an error string, the
  code "TOKEN_EXPIRED" and a reconnect URL.

  The two organisation lookups are started together (lines 48-51), and \<open>Promise.all\<close>
  reports the rejection that settles first; the other one is lost. When the lookup of the
  source organisation throws "INVALID_SESSION_ID: ..." and the lookup of the target has
  already rejected with "Connection refused", the outer \<open>catch\<close> sees the second message
  only, and the response is 500.
\<close>

theorem token_error_lost_in_promise_all:
  "findUnique (example_env\<lparr>findUnique := \<lambda>i.
        if i = JStr ''org-a'' then Inl (Error_obj ''INVALID_SESSION_ID: Session expired or invalid'')
        else Inl (Error_obj ''Connection refused''),
      second_rejects_first := True\<rparr>) (JStr ''org-a'')
     = Inl (Error_obj ''INVALID_SESSION_ID: Session expired or invalid'')
   \<and> js_includes ''INVALID_SESSION_ID: Session expired or invalid'' ''INVALID_SESSION_ID''
   \<and> POST (example_env\<lparr>findUnique := \<lambda>i.
        if i = JStr ''org-a'' then Inl (Error_obj ''INVALID_SESSION_ID: Session expired or invalid'')
        else Inl (Error_obj ''Connection refused''),
      second_rejects_first := True\<rparr>)
     = (\<lparr>status = 500, body = Body_failed ''Validation failed'' ''Connection refused''\<rparr>,
        [Call_request_json, Call_findUnique (JStr ''org-a''), Call_findUnique (JStr ''org-b''),
         Call_console_error ''Validation error:''])"
  by (simp add: handler_defs example_defs token_related_def)

text \<open>
  Claim C5, amended: for every request in which the error that leaves the handler's
  \<open>try\<close> block is an \<open>Error\<close> whose message contains one of the four substrings, be it
  thrown by \<open>request.json()\<close>, reported by the \<open>Promise.all\<close> of the two organisation
  lookups (the rejection that settles first), or thrown by the template lookup, the record
  pre-check or the engine, the handler returns status 401 with the body
  \<open>{error, code: "TOKEN_EXPIRED", reconnectUrl: "/orgs"}\<close>. Each disjunct of the second
  hypothesis is one of these five calls throwing, after the calls before it have returned
  what lets the handler reach it.
\<close>

theorem token_error_gives_401:
  assumes "js_includes m ''INVALID_SESSION_ID'' \<or> js_includes m ''invalid_grant''
     \<or> js_includes m ''expired'' \<or> js_includes m ''not connected''"
    and "request_json e = Inl (Error_obj m)
     \<or> (\<exists>b src tgt tid recs. request_json e = Inr (Body_object b) \<and> required_params b = Some (src, tgt, tid, recs)
          \<and> (promise_all2 (second_rejects_first e) (findUnique e src) (findUnique e tgt) = Inl (Error_obj m)
              \<or> (\<exists>so to. findUnique e src = Inr (Some so) \<and> findUnique e tgt = Inr (Some to)
                   \<and> (getTemplate e tid = Inl (Error_obj m)
                       \<or> (\<exists>tpl. getTemplate e tid = Inr (Some tpl)
                            \<and> (validateSelectedRecords e src recs (objectType tpl) = Inl (Error_obj m)
                                \<or> (\<exists>rv. validateSelectedRecords e src recs (objectType tpl) = Inr rv
                                     \<and> valid rv
                                     \<and> validateTemplate e tpl src tgt recs (instance_url so)
                                         = Inl (Error_obj m))))))))"
  shows "fst (POST e) =
           \<lparr>status = 401,
            body = Body_token_expired
              ''Authentication token has expired. Please reconnect the organisation.''
              ''TOKEN_EXPIRED'' ''/orgs''\<rparr>"
proof -
  from assms(2) have "fst (POST_try e) = Inl (Error_obj m)"
    by (rule POST_try_throws)
  moreover from assms(1) have "token_related m"
    by (rule token_related_if)
  ultimately show ?thesis
    by (simp add: fst_POST handle_error_def)
qed

theorem token_error_gives_401_witness:
  "js_includes ''INVALID_SESSION_ID: Session expired or invalid'' ''INVALID_SESSION_ID''
   \<and> validateTemplate
        (example_env\<lparr>validateTemplate := \<lambda>t src tgt recs url.
           Inl (Error_obj ''INVALID_SESSION_ID: Session expired or invalid'')\<rparr>)
        example_template (JStr ''org-a'') (JStr ''org-b'') [JStr ''rec1'', JStr ''rec2'']
        ''https://a.example''
       = Inl (Error_obj ''INVALID_SESSION_ID: Session expired or invalid'')
   \<and> fst (POST (example_env\<lparr>validateTemplate := \<lambda>t src tgt recs url.
           Inl (Error_obj ''INVALID_SESSION_ID: Session expired or invalid'')\<rparr>)) =
       \<lparr>status = 401,
        body = Body_token_expired
          ''Authentication token has expired. Please reconnect the organisation.''
          ''TOKEN_EXPIRED'' ''/orgs''\<rparr>"
proof -
  let ?m = "''INVALID_SESSION_ID: Session expired or invalid''"
  let ?e = "example_env\<lparr>validateTemplate := \<lambda>t src tgt recs url. Inl (Error_obj ?m)\<rparr>"
  have m: "js_includes ?m ''INVALID_SESSION_ID''" by simp
  then have m': "js_includes ?m ''INVALID_SESSION_ID'' \<or> js_includes ?m ''invalid_grant''
     \<or> js_includes ?m ''expired'' \<or> js_includes ?m ''not connected''" by (rule disjI1)
  have t: "validateTemplate ?e example_template (JStr ''org-a'') (JStr ''org-b'')
      [JStr ''rec1'', JStr ''rec2''] ''https://a.example'' = Inl (Error_obj ?m)"
    by simp
  have "request_json ?e = Inr (Body_object example_body)
      \<and> required_params example_body
          = Some (JStr ''org-a'', JStr ''org-b'', JStr ''pay-codes'', [JStr ''rec1'', JStr ''rec2''])
      \<and> findUnique ?e (JStr ''org-a'')
          = Inr (Some \<lparr>org_id = ''org-a'', instance_url = ''https://a.example''\<rparr>)
      \<and> findUnique ?e (JStr ''org-b'')
          = Inr (Some \<lparr>org_id = ''org-b'', instance_url = ''https://b.example''\<rparr>)
      \<and> getTemplate ?e (JStr ''pay-codes'') = Inr (Some example_template)
      \<and> validateSelectedRecords ?e (JStr ''org-a'') [JStr ''rec1'', JStr ''rec2'']
            (objectType example_template)
          = Inr \<lparr>valid = True, precheck_errors = [], invalidRecords = []\<rparr>
      \<and> valid \<lparr>valid = True, precheck_errors = [], invalidRecords = []\<rparr>
      \<and> validateTemplate ?e example_template (JStr ''org-a'') (JStr ''org-b'')
            [JStr ''rec1'', JStr ''rec2'']
            (instance_url \<lparr>org_id = ''org-a'', instance_url = ''https://a.example''\<rparr>)
          = Inl (Error_obj ?m)"
    by (simp add: example_path) (simp add: example_env_def)
  then have "request_json ?e = Inl (Error_obj ?m)
     \<or> (\<exists>b src tgt tid recs. request_json ?e = Inr (Body_object b) \<and> required_params b = Some (src, tgt, tid, recs)
          \<and> (promise_all2 (second_rejects_first ?e) (findUnique ?e src) (findUnique ?e tgt) = Inl (Error_obj ?m)
              \<or> (\<exists>so to. findUnique ?e src = Inr (Some so) \<and> findUnique ?e tgt = Inr (Some to)
                   \<and> (getTemplate ?e tid = Inl (Error_obj ?m)
                       \<or> (\<exists>tpl. getTemplate ?e tid = Inr (Some tpl)
                            \<and> (validateSelectedRecords ?e src recs (objectType tpl) = Inl (Error_obj ?m)
                                \<or> (\<exists>rv. validateSelectedRecords ?e src recs (objectType tpl) = Inr rv
                                     \<and> valid rv
                                     \<and> validateTemplate ?e tpl src tgt recs (instance_url so)
                                         = Inl (Error_obj ?m))))))))"
    by blast
  from token_error_gives_401 [OF m' this] m t show ?thesis by simp
qed

subsection \<open>C6: missing parameters are refused before any lookup\<close>

text \<open>
  Claim C6, as stated: for every request body missing \<open>sourceOrgId\<close>, \<open>targetOrgId\<close> or
  \<open>templateId\<close>, or whose \<open>selectedRecords\<close> array is absent or empty, the handler returns
  status 400 with an error message, and no organisation lookup, template lookup, record
  pre-check or engine invocation is performed.

  The body \<open>null\<close> has none of the parameters, but line 38 cannot destructure it: the
  \<open>TypeError\<close> is thrown inside the \<open>try\<close>, before the check of line 40, and the outer
  \<open>catch\<close> answers 500.
\<close>

theorem null_body_gives_500:
  "request_json (example_env\<lparr>request_json := Inr Body_null\<rparr>) = Inr Body_null
   \<and> POST (example_env\<lparr>request_json := Inr Body_null\<rparr>)
     = (\<lparr>status = 500,
         body = Body_failed ''Validation failed''
           ''Cannot destructure property 'sourceOrgId' of 'body' as it is null.''\<rparr>,
        [Call_request_json, Call_console_error ''Validation error:''])"
  by (simp add: handler_defs example_defs token_related_def)

text \<open>
  Claim C6, amended: for every request whose body is a JSON object in which \<open>sourceOrgId\<close>,
  \<open>targetOrgId\<close> or \<open>templateId\<close> is missing, or \<open>selectedRecords\<close> is absent or empty,
  the handler returns status 400 with an error message. For the body \<open>null\<close> the answer
  is the outer \<open>catch\<close>'s, for the \<open>TypeError\<close> of line 38, and is never 400. In both
  cases no organisation lookup, template lookup, record pre-check or engine invocation is
  performed: the trace holds the reading of the body and, for \<open>null\<close>, the
  \<open>console.error\<close> of the outer \<open>catch\<close>.
\<close>

theorem missing_parameters_refused:
  "(request_json e = Inr (Body_object b)
      \<and> (sourceOrgId b = None \<or> targetOrgId b = None \<or> templateId b = None
           \<or> selectedRecords b = None \<or> selectedRecords b = Some [])
     \<longrightarrow> POST e =
           (\<lparr>status = 400, body = Body_error ''Missing required validation parameters''\<rparr>,
            [Call_request_json]))
   \<and> (request_json e = Inr Body_null
     \<longrightarrow> POST e =
           (handle_error (Error_obj (destructure_null_message e)),
            [Call_request_json, Call_console_error ''Validation error:''])
         \<and> status (fst (POST e)) \<noteq> 400)"
proof (intro conjI impI)
  assume a: "request_json e = Inr (Body_object b)
      \<and> (sourceOrgId b = None \<or> targetOrgId b = None \<or> templateId b = None
           \<or> selectedRecords b = None \<or> selectedRecords b = Some [])"
  then have "required_params b = None"
    by (auto simp: required_params_def split: option.splits)
  with a show "POST e =
      (\<lparr>status = 400, body = Body_error ''Missing required validation parameters''\<rparr>,
       [Call_request_json])"
    by (simp add: POST_def POST_try_def)
next
  assume n: "request_json e = Inr Body_null"
  then show p: "POST e =
      (handle_error (Error_obj (destructure_null_message e)),
       [Call_request_json, Call_console_error ''Validation error:''])"
    by (simp add: POST_def POST_try_def)
  show "status (fst (POST e)) \<noteq> 400"
    by (simp add: p status_handle_error_400)
qed

theorem missing_parameters_refused_witness:
  "request_json (example_env\<lparr>request_json := Inr (Body_object (example_body\<lparr>selectedRecords := Some []\<rparr>))\<rparr>)
     = Inr (Body_object (example_body\<lparr>selectedRecords := Some []\<rparr>))
   \<and> selectedRecords (example_body\<lparr>selectedRecords := Some []\<rparr>) = Some []
   \<and> POST (example_env\<lparr>request_json := Inr (Body_object (example_body\<lparr>selectedRecords := Some []\<rparr>))\<rparr>) =
       (\<lparr>status = 400, body = Body_error ''Missing required validation parameters''\<rparr>,
        [Call_request_json])
   \<and> request_json (example_env\<lparr>request_json := Inr Body_null\<rparr>) = Inr Body_null
   \<and> snd (POST (example_env\<lparr>request_json := Inr Body_null\<rparr>))
       = [Call_request_json, Call_console_error ''Validation error:'']
   \<and> status (fst (POST (example_env\<lparr>request_json := Inr Body_null\<rparr>))) \<noteq> 400"
proof -
  let ?b = "example_body\<lparr>selectedRecords := Some []\<rparr>"
  let ?e = "example_env\<lparr>request_json := Inr (Body_object ?b)\<rparr>"
  let ?n = "example_env\<lparr>request_json := Inr Body_null\<rparr>"
  have 1: "request_json ?e = Inr (Body_object ?b)" by simp
  have 2: "selectedRecords ?b = Some []" by simp
  have 3: "request_json ?n = Inr Body_null" by simp
  from missing_parameters_refused [of ?e ?b] 1 2
  have a: "POST ?e =
      (\<lparr>status = 400, body = Body_error ''Missing required validation parameters''\<rparr>,
       [Call_request_json])"
    by simp
  from missing_parameters_refused [of ?n example_body] 3
  have b: "snd (POST ?n) = [Call_request_json, Call_console_error ''Validation error:'']"
    and c: "status (fst (POST ?n)) \<noteq> 400"
    by (simp_all add: status_handle_error_400)
  from 1 2 3 a b c show ?thesis by simp
qed

subsection \<open>C7: usage tracking never changes the response, but the response waits for it\<close>




subsection \<open>C8: the field of an engine error is read off its check name\<close>

text \<open>
  Claim C8, as stated: for every engine-produced error issue, \<open>field\<close> is set exactly
  when the error's \<open>checkName\<close> matches the "Invalid ... Values" naming pattern, and is
  then the title with the prefix "Invalid " and the suffix " Values" stripped; for any
  other error title, and for all warning and info issues, \<open>field\<close> is unset.

  Line 128 does not test for a prefix and a suffix: it tests that the check name contains
  "Invalid" and contains "Values", anywhere and in any order, and line 129 removes the
  first occurrence of "Invalid " and then the first occurrence of " Values", wherever they
  stand. For the check name "Required Values Invalid", which does not start with
  "Invalid ", \<open>field\<close> is set, to "Required Invalid".
\<close>

theorem field_set_outside_pattern:
  "\<not> invalid_values_pattern ''Required Values Invalid''
   \<and> \<not> starts_with ''Required Values Invalid'' ''Invalid ''
   \<and> map_option (\<lambda>v. map title (issues v))
        (validation_of (fst (POST (example_env\<lparr>validateTemplate := \<lambda>t src tgt recs url.
           Inr \<lparr>engine_errors = [example_finding ''Required Values Invalid''],
                engine_warnings = [], engine_info = []\<rparr>\<rparr>))))
       = Some [''Required Values Invalid'']
   \<and> map_option (\<lambda>v. map field (issues v))
        (validation_of (fst (POST (example_env\<lparr>validateTemplate := \<lambda>t src tgt recs url.
           Inr \<lparr>engine_errors = [example_finding ''Required Values Invalid''],
                engine_warnings = [], engine_info = []\<rparr>\<rparr>))))
       = Some [Some ''Required Invalid'']"
  by (simp add: handler_defs example_defs validation_of_def invalid_values_pattern_def
      issues_engine_result engine_issues_def error_issue_def)

text \<open>
  Claim C8, amended: for every engine-produced error issue, \<open>field\<close> is set exactly when
  the error's \<open>checkName\<close> contains "Invalid" and contains "Values"; it is then the check
  name with the first occurrence of "Invalid " removed and, from what remains, the first
  occurrence of " Values" removed. In particular, for a check name "Invalid " + X +
  " Values" in which X does not contain " Values", \<open>field\<close> is X. For every other error
  title and for every issue that is not an error (warnings, info, the large-batch
  warning), \<open>field\<close> is unset. The error issues are the first issues of the list, one
  per engine error and in the engine's order.
\<close>

theorem field_read_off_check_name:
  assumes "request_json e = Inr (Body_object b)"
    and "required_params b = Some (src, tgt, tid, recs)"
    and "findUnique e src = Inr (Some so)"
    and "findUnique e tgt = Inr (Some to)"
    and "getTemplate e tid = Inr (Some tpl)"
    and "validateSelectedRecords e src recs (objectType tpl) = Inr rv"
    and "valid rv"
    and "validateTemplate e tpl src tgt recs (instance_url so) = Inr er"
  shows "\<exists>v. fst (POST e) = \<lparr>status = 200, body = Body_validation True v\<rparr>
           \<and> (\<forall>k<length (engine_errors er).
                 severity (issues v ! k) = Error
                 \<and> title (issues v ! k) = checkName (engine_errors er ! k)
                 \<and> field (issues v ! k) =
                     (if js_includes (checkName (engine_errors er ! k)) ''Invalid''
                         \<and> js_includes (checkName (engine_errors er ! k)) ''Values''
                      then Some (js_replace (js_replace (checkName (engine_errors er ! k))
                                   ''Invalid '' []) '' Values'' [])
                      else None))
           \<and> (\<forall>k<length (engine_errors er). \<forall>x.
                 checkName (engine_errors er ! k) = ''Invalid '' @ x @ '' Values''
                 \<and> \<not> js_includes x '' Values''
                 \<longrightarrow> field (issues v ! k) = Some x)
           \<and> length (filter (\<lambda>i. severity i = Error) (issues v)) = length (engine_errors er)
           \<and> (\<forall>i\<in>set (issues v). severity i \<noteq> Error \<longrightarrow> field i = None)"
proof -
  let ?v = "engine_validation_result er (length recs) (body_selectedRecordNames b)"
  from POST_on_path(2) [OF assms(1-6) assms(7) assms(8)]
  have p: "fst (POST e) = \<lparr>status = 200, body = Body_validation True ?v\<rparr>"
    by simp
  have a: "\<forall>k<length (engine_errors er).
      severity (issues ?v ! k) = Error
      \<and> title (issues ?v ! k) = checkName (engine_errors er ! k)
      \<and> field (issues ?v ! k) =
          (if js_includes (checkName (engine_errors er ! k)) ''Invalid''
              \<and> js_includes (checkName (engine_errors er ! k)) ''Values''
           then Some (js_replace (js_replace (checkName (engine_errors er ! k))
                        ''Invalid '' []) '' Values'' [])
           else None)"
    by (simp add: issues_engine_result nth_engine_issues_error error_issue_def)
  have s: "\<forall>k<length (engine_errors er). \<forall>x.
      checkName (engine_errors er ! k) = ''Invalid '' @ x @ '' Values''
      \<and> \<not> js_includes x '' Values''
      \<longrightarrow> field (issues ?v ! k) = Some x"
    by (simp add: issues_engine_result nth_engine_issues_error field_of_invalid_values)
  have c: "length (filter (\<lambda>i. severity i = Error) (issues ?v)) = length (engine_errors er)"
    using errors_engine_issues [of er "length recs"]
    by (simp add: issues_engine_result summarise_def)
  have n: "\<forall>i\<in>set (issues ?v). severity i \<noteq> Error \<longrightarrow> field i = None"
    by (simp add: issues_engine_result field_not_error)
  from p a s c n show ?thesis by blast
qed

theorem field_read_off_check_name_witness:
  "checkName (engine_errors example_engine_result ! 0) = ''Invalid '' @ ''Picklist'' @ '' Values''
   \<and> \<not> js_includes ''Picklist'' '' Values''
   \<and> (\<exists>v. fst (POST example_env) = \<lparr>status = 200, body = Body_validation True v\<rparr>
        \<and> title (issues v ! 0) = ''Invalid Picklist Values''
        \<and> field (issues v ! 0) = Some ''Picklist''
        \<and> map severity (issues v) = [Error, Warning, Warning]
        \<and> map field (issues v) = [Some ''Picklist'', None, None])"
proof -
  have h1: "request_json example_env = Inr (Body_object example_body)"
    and h6: "validateSelectedRecords example_env (JStr ''org-a'') [JStr ''rec1'', JStr ''rec2'']
      (objectType example_template) = Inr \<lparr>valid = True, precheck_errors = [], invalidRecords = []\<rparr>"
    and h8: "validateTemplate example_env example_template (JStr ''org-a'') (JStr ''org-b'')
      [JStr ''rec1'', JStr ''rec2'']
      (instance_url \<lparr>org_id = ''org-a'', instance_url = ''https://a.example''\<rparr>)
      = Inr example_engine_result"
    by (simp_all add: example_env_def)
  have v: "valid \<lparr>valid = True, precheck_errors = [], invalidRecords = []\<rparr>" by simp
  have c: "checkName (engine_errors example_engine_result ! 0) = ''Invalid '' @ ''Picklist'' @ '' Values''"
    and i: "\<not> js_includes ''Picklist'' '' Values''"
    by (simp_all add: example_engine_result_def example_finding_def)
  from field_read_off_check_name [OF h1 example_path h6 v h8]
  obtain v where p: "fst (POST example_env) = \<lparr>status = 200, body = Body_validation True v\<rparr>"
    and s: "\<forall>k<length (engine_errors example_engine_result). \<forall>x.
      checkName (engine_errors example_engine_result ! k) = ''Invalid '' @ x @ '' Values''
      \<and> \<not> js_includes x '' Values''
      \<longrightarrow> field (issues v ! k) = Some x"
    by blast
  have l: "0 < length (engine_errors example_engine_result)"
    by (simp add: example_engine_result_def)
  from s l c i have f: "field (issues v ! 0) = Some ''Picklist''" by blast
  note q = POST_on_path(2) [OF h1 example_path h6 v h8]
  from p q have "v = engine_validation_result example_engine_result
      (length [JStr ''rec1'', JStr ''rec2'']) (body_selectedRecordNames example_body)"
    by simp
  then have r: "title (issues v ! 0) = ''Invalid Picklist Values''"
    "map severity (issues v) = [Error, Warning, Warning]"
    "map field (issues v) = [Some ''Picklist'', None, None]"
    by (simp_all add: issues_engine_result engine_issues_def example_engine_result_def
        example_finding_def error_issue_def warning_issue_def)
  show ?thesis
    by (intro conjI exI [of _ v]; fact)
qed

subsection \<open>C9: the success flag of the two 200 responses\<close>

text \<open>
  Claim C9. Every validation that passes the record-selection pre-check and completes
  returns status 200 with \<open>success = true\<close>, whether its verdict is valid or invalid;
  every record-selection short-circuit returns status 200 with \<open>success = false\<close>. The
  flag so differs between two outcomes that both carry a negative verdict. The instance
  below is a completed run with an invalid verdict, one with a valid verdict, and a
  short-circuit.
\<close>

theorem success_flag_by_path:
  assumes "request_json e = Inr (Body_object b)"
    and "required_params b = Some (src, tgt, tid, recs)"
    and "findUnique e src = Inr (Some so)"
    and "findUnique e tgt = Inr (Some to)"
    and "getTemplate e tid = Inr (Some tpl)"
    and "validateSelectedRecords e src recs (objectType tpl) = Inr rv"
  shows "(valid rv \<and> validateTemplate e tpl src tgt recs (instance_url so) = Inr er \<longrightarrow>
            (\<exists>v. fst (POST e) = \<lparr>status = 200, body = Body_validation True v\<rparr>
                 \<and> isValid v = (engine_errors er = [])))
         \<and> (\<not> valid rv \<longrightarrow>
            (\<exists>v. fst (POST e) = \<lparr>status = 200, body = Body_validation False v\<rparr>
                 \<and> \<not> isValid v))"
proof (intro conjI impI)
  assume a: "valid rv \<and> validateTemplate e tpl src tgt recs (instance_url so) = Inr er"
  from POST_on_path(2) [OF assms conjunct1 [OF a] conjunct2 [OF a]]
  show "\<exists>v. fst (POST e) = \<lparr>status = 200, body = Body_validation True v\<rparr>
      \<and> isValid v = (engine_errors er = [])"
    by (simp add: isValid_engine_result)
next
  assume a: "\<not> valid rv"
  from POST_on_path(1) [OF assms a]
  show "\<exists>v. fst (POST e) = \<lparr>status = 200, body = Body_validation False v\<rparr> \<and> \<not> isValid v"
    by (simp add: flags_invalid_selection)
qed

theorem success_flag_by_path_witness:
  "(\<exists>v. fst (POST example_env) = \<lparr>status = 200, body = Body_validation True v\<rparr> \<and> \<not> isValid v)
   \<and> (\<exists>v. fst (POST example_large_env) = \<lparr>status = 200, body = Body_validation True v\<rparr> \<and> isValid v)
   \<and> (\<exists>v. fst (POST (example_env\<lparr>validateSelectedRecords := \<lambda>src recs t. Inr example_invalid_selection\<rparr>))
          = \<lparr>status = 200, body = Body_validation False v\<rparr> \<and> \<not> isValid v)"
proof -
  let ?e = "example_env\<lparr>validateSelectedRecords := \<lambda>src recs t. Inr example_invalid_selection\<rparr>"
  have h1: "request_json example_env = Inr (Body_object example_body)"
    and h6: "validateSelectedRecords example_env (JStr ''org-a'') [JStr ''rec1'', JStr ''rec2'']
      (objectType example_template) = Inr \<lparr>valid = True, precheck_errors = [], invalidRecords = []\<rparr>"
    and h8: "validateTemplate example_env example_template (JStr ''org-a'') (JStr ''org-b'')
      [JStr ''rec1'', JStr ''rec2''] ''https://a.example'' = Inr example_engine_result"
    by (simp_all add: example_env_def)
  from success_flag_by_path [OF h1 example_path h6, of example_engine_result]
  have 1: "\<exists>v. fst (POST example_env) = \<lparr>status = 200, body = Body_validation True v\<rparr> \<and> \<not> isValid v"
    by (auto simp: h8 example_engine_result_def)
  from success_flag_by_path [OF example_large_path(1-6),
      of "\<lparr>engine_errors = [], engine_warnings = [], engine_info = []\<rparr>"]
  have 2: "\<exists>v. fst (POST example_large_env) = \<lparr>status = 200, body = Body_validation True v\<rparr> \<and> isValid v"
    by (auto simp: example_large_path(7))
  have g1: "request_json ?e = Inr (Body_object example_body)"
    by (simp add: example_env_def)
  have g3: "findUnique ?e (JStr ''org-a'') =
      Inr (Some \<lparr>org_id = ''org-a'', instance_url = ''https://a.example''\<rparr>)"
    and g4: "findUnique ?e (JStr ''org-b'') =
      Inr (Some \<lparr>org_id = ''org-b'', instance_url = ''https://b.example''\<rparr>)"
    and g5: "getTemplate ?e (JStr ''pay-codes'') = Inr (Some example_template)"
    by (simp_all add: example_path)
  have g6: "validateSelectedRecords ?e (JStr ''org-a'') [JStr ''rec1'', JStr ''rec2'']
      (objectType example_template) = Inr example_invalid_selection"
    by simp
  from success_flag_by_path [OF g1 example_path(1) g3 g4 g5 g6]
  have 3: "\<exists>v. fst (POST ?e) = \<lparr>status = 200, body = Body_validation False v\<rparr> \<and> \<not> isValid v"
    by (auto simp: example_invalid_selection_def)
  from 1 2 3 show ?thesis by simp
qed

subsection \<open>C10: the selected record names are always part of the report\<close>

text \<open>
  Claim C10. For every 200 response, on either path, the returned \<open>ValidationResult\<close>
  has a \<open>selectedRecordNames\<close> property: the caller's value, unchanged, when the caller
  supplied one that is truthy, and the empty object when the caller omitted it or sent a
  falsy value. The instance below is a request that names its records and one that sends
  the empty string.
\<close>

theorem selected_record_names_always_present:
  assumes "status (fst (POST e)) = 200"
  shows "\<exists>b ok v. request_json e = Inr (Body_object b) \<and> body (fst (POST e)) = Body_validation ok v
           \<and> selectedRecordNames v =
               Some (case body_selectedRecordNames b of
                       None \<Rightarrow> JObj []
                     | Some names \<Rightarrow> if truthy names then names else JObj [])"
  using assms
proof (cases rule: ok_response_cases)
  case (short_circuit b src tgt tid recs so to tpl rv)
  from short_circuit(1,8) show ?thesis
    by (auto simp: names_invalid_selection names_or_empty_def)
next
  case (engine b src tgt tid recs so to tpl rv er)
  from engine(1,9) show ?thesis
    by (auto simp: names_engine_result names_or_empty_def)
qed

theorem selected_record_names_always_present_witness:
  "status (fst (POST example_env)) = 200
   \<and> (\<exists>ok v. body (fst (POST example_env)) = Body_validation ok v
        \<and> selectedRecordNames v = Some (JObj [(''rec1'', JStr ''Overtime'')]))
   \<and> status (fst (POST (example_env\<lparr>request_json := Inr (Body_object (example_body\<lparr>body_selectedRecordNames := Some (JStr [])\<rparr>))\<rparr>))) = 200
   \<and> (\<exists>ok v. body (fst (POST (example_env\<lparr>request_json := Inr (Body_object (example_body\<lparr>body_selectedRecordNames := Some (JStr [])\<rparr>))\<rparr>)))
          = Body_validation ok v
        \<and> selectedRecordNames v = Some (JObj []))"
proof -
  let ?e = "example_env\<lparr>request_json := Inr (Body_object (example_body\<lparr>body_selectedRecordNames := Some (JStr [])\<rparr>))\<rparr>"
  have h: "status (fst (POST example_env)) = 200"
    by (simp add: handler_defs example_defs)
  have h': "status (fst (POST ?e)) = 200"
    by (simp add: handler_defs example_defs)
  have b: "request_json example_env = Inr (Body_object example_body)"
    by (simp add: example_env_def)
  have b': "request_json ?e = Inr (Body_object (example_body\<lparr>body_selectedRecordNames := Some (JStr [])\<rparr>))"
    by (simp add: example_env_def)
  from selected_record_names_always_present [OF h] b
  have 1: "\<exists>ok v. body (fst (POST example_env)) = Body_validation ok v
        \<and> selectedRecordNames v = Some (JObj [(''rec1'', JStr ''Overtime'')])"
    by (auto simp: example_body_def)
  from selected_record_names_always_present [OF h'] b'
  have 2: "\<exists>ok v. body (fst (POST ?e)) = Body_validation ok v
        \<and> selectedRecordNames v = Some (JObj [])"
    by (auto simp: example_body_def)
  from h h' 1 2 show ?thesis by blast
qed

end
